theory Spec2Isabelle
  imports Complex_Main
begin

section \<open>Values and errors\<close>

text \<open>
  Numbers of the Python program (ints and floats alike) are modelled as \<open>real\<close>: the
  properties below are algebraic identities of the formulas the code evaluates.
  A numpy array is modelled by its dimensionality and its entries: a 0-d array (or a
  bare number), a 1-d array, or a 2-d array given as the list of its rows.
\<close>

datatype ndarray = Arr0 real | Arr1 "real list" | Arr2 "real list list"

text \<open>
  Every \<open>raise\<close> of the source is a value of \<open>error\<close>. \<open>UtilityError\<close> is the
  exception class of \<open>Functions/Utility.py\<close>; \<open>ProjectionError\<close> is the one of
  \<open>Functions/Projections/Projection.py\<close> and carries the site that raised it. The
  remaining constructors are the built-in Python exceptions the modelled statements raise.
\<close>

datatype projection_error_site =
    IllegalProcessInput
  | SenderClassNotOutputState
  | SenderNotOutputState
  | OutputIncompatibleNoSelfExecute
  | LengthMismatch

datatype error =
    UtilityError
  | ProjectionError projection_error_site
  | IndexError
  | TypeError
  | ValueError
  | AttributeError
  | KeyError

section \<open>Integrator\<close>

text \<open>\<open>class Weightings(Enum)\<close> of \<open>Integrator\<close>.\<close>

datatype Weightings = LINEAR | SCALED | TIME_AVERAGED

text \<open>
  The value stored under \<open>kwWeighting\<close> in \<open>paramsCurrent\<close>: one of the three members
  of the enumeration, or any other Python object (which compares unequal to each member).
\<close>

datatype 'a weighting_param = Policy Weightings | OtherWeighting 'a

text \<open>
  \<open>Integrator.execute\<close>, after \<open>check_args\<close> has stored the variable:
  \<open>values[0]\<close> and \<open>values[1]\<close> raise \<open>IndexError\<close> on a shorter 1-d variable.
\<close>

fun Integrator_execute :: "real list \<Rightarrow> real \<Rightarrow> 'a weighting_param \<Rightarrow> error + real" where
  "Integrator_execute (old_value # new_value # rest) rate weighting =
     (if weighting = Policy LINEAR then Inr (old_value + rate)
      else if weighting = Policy SCALED then Inr (old_value + (new_value * rate))
      else if weighting = Policy TIME_AVERAGED then Inr ((1 - rate) * old_value + rate * new_value)
      else Inr new_value)"
| "Integrator_execute values rate weighting = Inl IndexError"

section \<open>Arithmetic\<close>

text \<open>\<open>class Operation(Enum)\<close> of \<open>Arithmetic\<close>, with members SUM and PRODUCT.\<close>

datatype Operation = Operation_SUM | Operation_PRODUCT

text \<open>
  The value stored under \<open>kwOperation\<close>: a member of the enumeration or any other object.
  The value stored under \<open>kwWeights\<close>: the class default \<open>NotImplemented\<close>, or a Python
  list of numbers, as the docstrings of the class and of \<open>execute\<close> describe it.
\<close>

datatype 'a operation_param = Op Operation | OtherOperation 'a

datatype weights_param = NotImplemented | WeightsList "real list"

text \<open>
  Truth value of the weights in \<open>if weights and not weights is NotImplemented\<close>:
  \<open>NotImplemented\<close> is true, a list is true when it is not empty.
\<close>

definition weights_truth :: "weights_param \<Rightarrow> bool" where
  "weights_truth weights = (case weights of NotImplemented \<Rightarrow> True | WeightsList ws \<Rightarrow> ws \<noteq> [])"

text \<open>
  \<open>Arithmetic.validate_params\<close>, after the call of the superclass method (which is not
  part of the modelled sources and is taken to accept the parameters). A true weights
  value other than \<open>NotImplemented\<close> that is a list of numbers reaches
  \<open>np.atleast(self.paramsCurrent[self.kwWeights]).reshape(2,1)\<close>; numpy provides
  \<open>atleast_1d\<close>, \<open>atleast_2d\<close> and \<open>atleast_3d\<close> but no attribute \<open>atleast\<close>, so the
  lookup raises AttributeError. Members of a plain \<open>Enum\<close> are true, so
  \<open>if not operation\<close> raises for no member; any value other than the two members
  raises UtilityError in one of the two operation checks.
\<close>

definition Arithmetic_validate_params ::
  "weights_param \<Rightarrow> 'a operation_param \<Rightarrow> error + weights_param" where
  "Arithmetic_validate_params weights operation =
     (if weights_truth weights \<and> weights \<noteq> NotImplemented then Inl AttributeError
      else if operation \<noteq> Op Operation_SUM \<and> operation \<noteq> Op Operation_PRODUCT then Inl UtilityError
      else Inr weights)"

text \<open>
  Modelled from the spec: \<open>np_array_less_than_2d\<close> is imported from \<open>Main\<close>, which is
  not among the sources; the comment at its call reads "If variable is 0D or 1D".
\<close>

fun np_array_less_than_2d :: "ndarray \<Rightarrow> bool" where
  "np_array_less_than_2d (Arr2 rows) = False"
| "np_array_less_than_2d v = True"

text \<open>\<open>(x * scale) + offset\<close> for numbers \<open>scale\<close> and \<open>offset\<close>, entry by entry.\<close>

fun scale_offset :: "ndarray \<Rightarrow> real \<Rightarrow> real \<Rightarrow> ndarray" where
  "scale_offset (Arr0 x) scale offset = Arr0 (x * scale + offset)"
| "scale_offset (Arr1 xs) scale offset = Arr1 (map (\<lambda>x. x * scale + offset) xs)"
| "scale_offset (Arr2 rows) scale offset = Arr2 (map (map (\<lambda>x. x * scale + offset)) rows)"

text \<open>
  One step of Python's \<open>sum(self.variable)\<close> and \<open>reduce(mul, self.variable, 1)\<close>: the
  accumulator (the number 0 or 1 at the start, a 1-d array afterwards) is combined with
  the next row of the 2-d array. The rows of a 2-d array have one common length.
\<close>

fun row_op :: "(real \<Rightarrow> real \<Rightarrow> real) \<Rightarrow> ndarray \<Rightarrow> real list \<Rightarrow> ndarray" where
  "row_op f (Arr0 a) row = Arr1 (map (f a) row)"
| "row_op f (Arr1 acc) row = Arr1 (map2 f acc row)"
| "row_op f (Arr2 m) row = Arr2 (map (\<lambda>r. map2 f r row) m)"

definition py_sum :: "real list list \<Rightarrow> ndarray" where
  "py_sum rows = foldl (row_op (+)) (Arr0 0) rows"

definition reduce_mul :: "real list list \<Rightarrow> ndarray" where
  "reduce_mul rows = foldl (row_op (*)) (Arr0 1) rows"

definition row_length :: "real list list \<Rightarrow> nat" where
  "row_length rows = (case rows of [] \<Rightarrow> 0 | row # _ \<Rightarrow> length row)"

text \<open>
  \<open>self.variable * weights\<close> for a 2-d array of shape \<open>(n, k)\<close> and a Python list of
  \<open>m\<close> numbers. numpy turns the list into a 1-d array and broadcasts it along the last
  axis: the shapes agree when \<open>k = m\<close>, or when one of them is 1 (that operand is
  repeated); otherwise numpy raises ValueError.
\<close>

definition np_multiply :: "real list list \<Rightarrow> real list \<Rightarrow> error + real list list" where
  "np_multiply rows ws =
     (let k = row_length rows; m = length ws in
      if k = m then Inr (map (\<lambda>row. map2 (*) row ws) rows)
      else if m = 1 then Inr (map (map (\<lambda>x. x * hd ws)) rows)
      else if k = 1 then Inr (map (\<lambda>row. map (\<lambda>w. hd row * w) ws) rows)
      else Inl ValueError)"

text \<open>The block "Apply weights if they were specified" of \<open>Arithmetic.execute\<close>.\<close>

definition Arithmetic_apply_weights :: "real list list \<Rightarrow> weights_param \<Rightarrow> error + real list list" where
  "Arithmetic_apply_weights rows weights =
     (if weights_truth weights \<and> weights \<noteq> NotImplemented then
        (case weights of
           WeightsList ws \<Rightarrow>
             if length ws \<noteq> length rows then Inl UtilityError
             else np_multiply rows ws
         | NotImplemented \<Rightarrow> Inr rows)
      else Inr rows)"

text \<open>
  The block "Calculate using relevant aggregation operation and return". In the last
  branch the message of the UtilityError is built from
  \<open>self.paramsCurrent[self.kwOperation].self.Operation.SUM\<close>; the attribute \<open>self\<close> of
  the parameter value does not exist, so AttributeError is raised before the UtilityError
  is constructed.
\<close>

definition Arithmetic_combine ::
  "real list list \<Rightarrow> 'a operation_param \<Rightarrow> real \<Rightarrow> real \<Rightarrow> error + ndarray" where
  "Arithmetic_combine terms operation offset scale =
     (if operation = Op Operation_SUM then Inr (scale_offset (py_sum terms) scale offset)
      else if operation = Op Operation_PRODUCT then Inr (reduce_mul terms)
      else Inl AttributeError)"

text \<open>
  \<open>Arithmetic.execute\<close>, after \<open>check_args\<close>, on \<open>self.variable\<close> and the four
  entries of \<open>paramsCurrent\<close> it reads (weights, operation, offset, scale).
\<close>

definition Arithmetic_execute ::
  "ndarray \<Rightarrow> weights_param \<Rightarrow> 'a operation_param \<Rightarrow> real \<Rightarrow> real \<Rightarrow> error + ndarray" where
  "Arithmetic_execute variable weights operation offset scale =
     (if np_array_less_than_2d variable then Inr (scale_offset variable scale offset)
      else
        (case variable of
           Arr2 rows \<Rightarrow>
             (case Arithmetic_apply_weights rows weights of
                Inl e \<Rightarrow> Inl e
              | Inr terms \<Rightarrow> Arithmetic_combine terms operation offset scale)
         | _ \<Rightarrow> Inr (scale_offset variable scale offset)))"

text \<open>
  The weighted terms in the words of the specification (section 4.3, "optional per-term
  weights", and P5, \<open>2*1 + 3*0 + 4*1\<close>) and of the class docstring ("list of weights:
  multiplies each variable before combining them"): every term is multiplied by its own
  weight. This second definition is compared with what \<open>Arithmetic.execute\<close> computes.
\<close>

definition spec_weighted_terms :: "real list list \<Rightarrow> real list \<Rightarrow> real list list" where
  "spec_weighted_terms rows ws = map2 (\<lambda>w row. map ((*) w) row) ws rows"

section \<open>Utility_Base: the output type of a utility function\<close>

text \<open>\<open>class UtilityFunctionOutputType(IntEnum)\<close>, with values 0, 1 and 2.\<close>

datatype UtilityFunctionOutputType = RAW_NUMBER | NP_1D_ARRAY | NP_2D_ARRAY

text \<open>
  A value assigned to (or stored in) \<open>functionOutputType\<close>: \<open>None\<close>, a member of the
  enumeration, or any other object, of which only its truth value matters.
\<close>

datatype output_type_value = NoneValue | OutputType UtilityFunctionOutputType | OtherValue bool

text \<open>
  Truth value in \<open>if value and ...\<close>: \<open>None\<close> is false; a member of an \<open>IntEnum\<close> is
  an int, so \<open>RAW_NUMBER\<close> (0) is false and the other two members are true.
\<close>

fun value_truth :: "output_type_value \<Rightarrow> bool" where
  "value_truth NoneValue = False"
| "value_truth (OutputType t) = (t \<noteq> RAW_NUMBER)"
| "value_truth (OtherValue b) = b"

text \<open>\<open>isinstance(value, UtilityFunctionOutputType)\<close>.\<close>

fun is_output_type :: "output_type_value \<Rightarrow> bool" where
  "is_output_type (OutputType t) = True"
| "is_output_type v = False"

text \<open>\<open>len(a)\<close> of an array: the size of the first axis; TypeError on a 0-d array or number.\<close>

fun py_len :: "ndarray \<Rightarrow> error + nat" where
  "py_len (Arr0 x) = Inl TypeError"
| "py_len (Arr1 xs) = Inr (length xs)"
| "py_len (Arr2 rows) = Inr (length rows)"

text \<open>
  The attributes of a utility function that the property \<open>functionOutputType\<close> reads and
  writes: \<open>self.variable\<close>, \<open>self.paramsCurrent[kwFunctionOutputTypeConversion]\<close> and
  \<open>self._functionOutputType\<close>.
\<close>

record utility =
  variable :: ndarray
  functionOutputTypeConversion :: bool
  functionOutputType_attr :: output_type_value

text \<open>The getter of the property.\<close>

definition functionOutputType :: "'a utility_scheme \<Rightarrow> output_type_value" where
  "functionOutputType self =
     (if functionOutputTypeConversion self then functionOutputType_attr self else NoneValue)"

text \<open>
  The setter of the property. Its third test reads \<open>self.functionOutputType\<close>, the value
  the getter returns before the assignment, not the \<open>value\<close> being assigned.
\<close>

definition functionOutputType_setter ::
  "'a utility_scheme \<Rightarrow> output_type_value \<Rightarrow> error + 'a utility_scheme" where
  "functionOutputType_setter self v =
     (if value_truth v \<and> \<not> functionOutputTypeConversion self then Inl UtilityError
      else if value_truth v \<and> \<not> is_output_type v then Inl UtilityError
      else
        (case py_len (variable self) of
           Inl e \<Rightarrow> Inl e
         | Inr n \<Rightarrow>
             if n > 1 \<and> functionOutputType self = OutputType RAW_NUMBER then Inl UtilityError
             else Inr (self\<lparr>functionOutputType_attr := v\<rparr>)))"

section \<open>Linear\<close>

text \<open>
  \<open>Linear.__init__\<close>: the class enables the output type conversion, and the constructor
  ends with \<open>self.functionOutputType = None\<close>.
\<close>

definition Linear_init :: "ndarray \<Rightarrow> error + utility" where
  "Linear_init variable_default =
     functionOutputType_setter
       \<lparr>variable = variable_default, functionOutputTypeConversion = True,
        functionOutputType_attr = NoneValue\<rparr> NoneValue"

text \<open>
  \<open>Linear.execute\<close> on the stored variable. The branch for \<open>NP_2D_ARRAY\<close> calls
  \<open>np.atleast2d\<close>, which numpy does not define (its function is \<open>atleast_2d\<close>):
  AttributeError. \<open>np.atleast_1d\<close> leaves a 1-d array as it is.
\<close>

definition Linear_execute :: "utility \<Rightarrow> real \<Rightarrow> real \<Rightarrow> error + ndarray" where
  "Linear_execute self slope intercept =
     (let outputType = functionOutputType self;
          result = scale_offset (variable self) slope intercept
      in
      if outputType = OutputType NP_2D_ARRAY then Inl AttributeError
      else if outputType = OutputType NP_1D_ARRAY then
        (case variable self of
           Arr2 rows \<Rightarrow>
             (if length rows = 1 then
                (case result of Arr2 (r # rs) \<Rightarrow> Inr (Arr1 r) | _ \<Rightarrow> Inl IndexError)
              else Inl UtilityError)
         | Arr1 xs \<Rightarrow>
             (if length xs = 1 then Inr result
              else if length xs = 0 then Inr result
              else Inl UtilityError)
         | Arr0 x \<Rightarrow> Inl TypeError)
      else if outputType = OutputType RAW_NUMBER then
        (case variable self of
           Arr2 rows \<Rightarrow>
             (case rows of
                [] \<Rightarrow> Inl UtilityError
              | row # rest \<Rightarrow>
                  if length rows = 1 \<and> length row = 1 then
                    (case result of Arr2 ((x # xs) # rs) \<Rightarrow> Inr (Arr0 x) | _ \<Rightarrow> Inl IndexError)
                  else Inl UtilityError)
         | Arr1 xs \<Rightarrow>
             (if length xs = 1 then
                (case result of Arr1 (x # xs) \<Rightarrow> Inr (Arr0 x) | _ \<Rightarrow> Inl IndexError)
              else Inr result)
         | Arr0 x \<Rightarrow> Inl TypeError)
      else Inr result)"

section \<open>LinearMatrix\<close>

text \<open>
  The names and values of the parameters of a LinearMatrix function. A matrix
  specification is a number, a string (the keyword \<open>kwIdentityMatrix\<close>), a Python list of
  numbers, a Python list of lists of numbers or an \<open>np.matrix\<close>; a receiver is a list
  of numbers.
\<close>

datatype param_name = kwReceiver | kwMatrix | kwFunctionOutputTypeConversion | OtherParam string

datatype param_value =
    PNumber real
  | PBool bool
  | PString string
  | PList "real list"
  | PListOfLists "real list list"
  | PNpMatrix "real list list"
  | PNotImplemented
  | POther

text \<open>
  A matrix as \<open>implement_matrix\<close> returns it: an \<open>np.matrix\<close> (a given matrix, or one
  filled with a number) or the plain 2-d array of \<open>np.identity\<close>.
\<close>

datatype matrix = NpMatrix "real list list" | NdArray "real list list"

definition kwIdentityMatrix :: string where
  "kwIdentityMatrix = ''IdentityMatrix''"

text \<open>
  A parameter dictionary, in insertion order. \<open>set_param\<close> is \<open>d[k] = v\<close>: the value of
  an existing key is replaced in place, a new key is added at the end.
\<close>

type_synonym param_set = "(param_name \<times> param_value) list"

fun set_param :: "param_set \<Rightarrow> param_name \<Rightarrow> param_value \<Rightarrow> param_set" where
  "set_param [] k v = [(k, v)]"
| "set_param ((k', v') # ps) k v = (if k' = k then (k, v) # ps else (k', v') # set_param ps k v)"

text \<open>\<open>paramClassDefaults\<close> of LinearMatrix.\<close>

definition LinearMatrix_paramClassDefaults :: param_set where
  "LinearMatrix_paramClassDefaults =
     [(kwFunctionOutputTypeConversion, PBool False), (kwMatrix, PString kwIdentityMatrix)]"

text \<open>
  Modelled from the spec: the merge of the parameters given at construction over the
  class defaults (section 4.2) is done by the base class \<open>Function\<close>, which is not among
  the sources. Keys the class does not declare are kept: \<open>validate_params\<close> below looks
  for \<open>kwReceiver\<close> and reports unrecognised names itself.
\<close>

definition assign_defaults :: "param_set \<Rightarrow> param_set \<Rightarrow> param_set" where
  "assign_defaults class_defaults request_set =
     foldl (\<lambda>ps (k, v). set_param ps k v) class_defaults request_set"

record linear_matrix = utility +
  receiver :: "real list option"
  paramsCurrent :: param_set
  matrix :: "matrix option"

text \<open>\<open>LinearMatrix.validate_variable\<close>: the variable must be a 1-d array.\<close>

definition LinearMatrix_validate_variable :: "ndarray \<Rightarrow> error + real list" where
  "LinearMatrix_validate_variable v =
     (case v of Arr1 xs \<Rightarrow> Inr xs | _ \<Rightarrow> Inl UtilityError)"

definition rectangular :: "real list list \<Rightarrow> bool" where
  "rectangular rows = list_all (\<lambda>row. length row = row_length rows) rows"

text \<open>
  The shape of \<open>np.matrix(param_value)\<close>: a list of numbers gives one row; a list of
  rows of one common length gives that many rows; rows of different lengths are refused
  by numpy (ValueError).
\<close>

fun matrix_shape :: "param_value \<Rightarrow> error + nat \<times> nat" where
  "matrix_shape (PList xs) = Inr (1, length xs)"
| "matrix_shape (PListOfLists rows) =
     (if rows = [] then Inr (1, 0)
      else if rectangular rows then Inr (length rows, row_length rows)
      else Inl ValueError)"
| "matrix_shape (PNpMatrix rows) = Inr (length rows, row_length rows)"
| "matrix_shape v = Inl TypeError"

text \<open>
  First part of \<open>LinearMatrix.validate_params\<close>: the receiver is taken from the
  parameters, or, when \<open>kwReceiver\<close> is absent, the sender is used and stored under
  \<open>kwReceiver\<close>. The result is \<open>self.receiver\<close> and the parameter set.
\<close>

definition validate_receiver :: "real list \<Rightarrow> param_set \<Rightarrow> error + real list \<times> param_set" where
  "validate_receiver sender param_set =
     (case map_of param_set kwReceiver of
        Some (PList xs) \<Rightarrow> Inr (xs, param_set)
      | Some v \<Rightarrow> Inl UtilityError
      | None \<Rightarrow> Inr (sender, set_param param_set kwReceiver (PList sender)))"

text \<open>
  The branch \<open>elif param_name == self.kwMatrix\<close> of the loop: a number is accepted (a
  \<open>bool\<close> is a number in Python); the identity keyword is accepted, and the receiver
  parameter (not \<open>self.receiver\<close>) is reset to the sender when the lengths differ; a
  list or matrix must have as many rows as the sender has entries and as many columns as
  the receiver has; anything else is refused.
\<close>

fun validate_matrix_param ::
  "real list \<Rightarrow> real list \<Rightarrow> param_value \<Rightarrow> param_set \<Rightarrow> error + param_set" where
  "validate_matrix_param sender rcv (PNumber x) param_set = Inr param_set"
| "validate_matrix_param sender rcv (PBool b) param_set = Inr param_set"
| "validate_matrix_param sender rcv (PString s) param_set =
     (if s = kwIdentityMatrix then
        (if \<not> (length rcv = length sender) then Inr (set_param param_set kwReceiver (PList sender))
         else Inr param_set)
      else Inl UtilityError)"
| "validate_matrix_param sender rcv PNotImplemented param_set = Inl UtilityError"
| "validate_matrix_param sender rcv POther param_set = Inl UtilityError"
| "validate_matrix_param sender rcv spec param_set =
     (case matrix_shape spec of
        Inl e \<Rightarrow> Inl e
      | Inr (matrix_rows, matrix_cols) \<Rightarrow>
          if matrix_rows \<noteq> length sender then Inl UtilityError
          else if matrix_cols \<noteq> length rcv then Inl UtilityError
          else Inr param_set)"

text \<open>
  The loop \<open>for param_name, param_value in param_set.items()\<close> with the final
  \<open>if message: raise\<close>; \<open>message\<close> records whether an unrecognised name was met.
\<close>

fun validate_items ::
  "real list \<Rightarrow> real list \<Rightarrow> param_set \<Rightarrow> param_set \<Rightarrow> bool \<Rightarrow> error + param_set" where
  "validate_items sender rcv [] param_set message =
     (if message then Inl UtilityError else Inr param_set)"
| "validate_items sender rcv ((param_name, param_value) # items) param_set message =
     (if param_name = kwReceiver then validate_items sender rcv items param_set message
      else if param_name = kwFunctionOutputTypeConversion then
        validate_items sender rcv items param_set message
      else if param_name = kwMatrix then
        (case validate_matrix_param sender rcv param_value param_set of
           Inl e \<Rightarrow> Inl e
         | Inr param_set' \<Rightarrow> validate_items sender rcv items param_set' message)
      else validate_items sender rcv items param_set True)"

text \<open>
  \<open>LinearMatrix.validate_params\<close> on the sender (\<open>self.variable\<close>) and the target set
  left by the superclass method; it returns \<open>self.receiver\<close> and the parameter set.
\<close>

definition LinearMatrix_validate_params ::
  "real list \<Rightarrow> param_set \<Rightarrow> error + real list \<times> param_set" where
  "LinearMatrix_validate_params sender target_set =
     (case validate_receiver sender target_set of
        Inl e \<Rightarrow> Inl e
      | Inr (rcv, param_set) \<Rightarrow>
          (case validate_items sender rcv param_set param_set False of
             Inl e \<Rightarrow> Inl e
           | Inr param_set' \<Rightarrow> Inr (rcv, param_set')))"

text \<open>\<open>np.identity(n)\<close>, and the filled matrix: \<open>np.matrix\<close> of an empty list has shape (1, 0).\<close>

definition np_identity :: "nat \<Rightarrow> real list list" where
  "np_identity n = map (\<lambda>i. map (\<lambda>j. if i = j then 1 else 0) [0..<n]) [0..<n]"

definition filled_matrix :: "nat \<Rightarrow> nat \<Rightarrow> real \<Rightarrow> real list list" where
  "filled_matrix sender_len receiver_len x =
     (if sender_len = 0 then [[]] else replicate sender_len (replicate receiver_len x))"

text \<open>
  \<open>LinearMatrix.implement_matrix\<close> on the sender, \<open>self.receiver\<close> (if the attribute is
  set) and the specification. Only an \<open>np.matrix\<close> is returned as it is; a list is
  neither a number nor equal to the identity keyword, and reaches the final \<open>raise\<close>.
\<close>

definition implement_matrix ::
  "real list \<Rightarrow> real list option \<Rightarrow> param_value \<Rightarrow> error + matrix" where
  "implement_matrix sender rcv_attr specification0 =
     (let specification =
            (if specification0 = PNotImplemented then PString kwIdentityMatrix else specification0)
      in
      case specification of
        PNpMatrix m \<Rightarrow> Inr (NpMatrix m)
      | _ \<Rightarrow>
         (let sender_len = length sender;
              rcv = (case rcv_attr of Some r \<Rightarrow> r | None \<Rightarrow> sender);
              receiver_len = length rcv
          in
          case specification of
            PNumber x \<Rightarrow> Inr (NpMatrix (filled_matrix sender_len receiver_len x))
          | PBool b \<Rightarrow>
              Inr (NpMatrix (filled_matrix sender_len receiver_len (if b then 1 else 0)))
          | _ \<Rightarrow>
             if specification = PString kwIdentityMatrix then
               (if sender_len \<noteq> receiver_len then Inl UtilityError
                else Inr (NdArray (np_identity sender_len)))
             else Inl UtilityError))"

text \<open>The truth value of \<open>paramsCurrent[kwFunctionOutputTypeConversion]\<close>.\<close>

definition param_truth :: "param_value option \<Rightarrow> bool" where
  "param_truth v =
     (case v of
        Some (PBool b) \<Rightarrow> b
      | Some (PNumber x) \<Rightarrow> x \<noteq> 0
      | Some (PString s) \<Rightarrow> s \<noteq> []
      | Some (PList xs) \<Rightarrow> xs \<noteq> []
      | Some (PListOfLists rows) \<Rightarrow> rows \<noteq> []
      | Some (PNpMatrix rows) \<Rightarrow> True
      | Some PNotImplemented \<Rightarrow> True
      | Some POther \<Rightarrow> True
      | None \<Rightarrow> False)"

text \<open>
  Construction of a LinearMatrix function. The base class runs, in this order (see the
  instantiation sequence in \<open>READ_ME.py\<close>), \<open>validate_variable\<close>, the merge of the
  parameters, \<open>validate_params\<close> and the hook
  \<open>instantiate_attributes_before_execute_method\<close>, which LinearMatrix overrides with
  \<open>self.matrix = self.implement_matrix()\<close> (no specification: the identity). Then
  \<open>LinearMatrix.__init__\<close> sets
  \<open>self.matrix = self.implement_matrix(self.paramsCurrent[self.kwMatrix])\<close>.
\<close>

definition LinearMatrix_init :: "ndarray \<Rightarrow> param_set \<Rightarrow> error + linear_matrix" where
  "LinearMatrix_init variable_default param_defaults =
     (case LinearMatrix_validate_variable variable_default of
        Inl e \<Rightarrow> Inl e
      | Inr sender \<Rightarrow>
     (case LinearMatrix_validate_params sender
             (assign_defaults LinearMatrix_paramClassDefaults param_defaults) of
        Inl e \<Rightarrow> Inl e
      | Inr (rcv, params) \<Rightarrow>
     (case implement_matrix sender (Some rcv) PNotImplemented of
        Inl e \<Rightarrow> Inl e
      | Inr m0 \<Rightarrow>
     (case map_of params kwMatrix of
        None \<Rightarrow> Inl KeyError
      | Some spec \<Rightarrow>
     (case implement_matrix sender (Some rcv) spec of
        Inl e \<Rightarrow> Inl e
      | Inr m \<Rightarrow>
          Inr \<lparr>variable = Arr1 sender,
               functionOutputTypeConversion =
                 param_truth (map_of params kwFunctionOutputTypeConversion),
               functionOutputType_attr = NoneValue,
               receiver = Some rcv, paramsCurrent = params, matrix = Some m\<rparr>)))))"

text \<open>
  \<open>np.dot(v, m)\<close> for a 1-d array and a matrix with as many rows as \<open>v\<close> has entries:
  entry \<open>j\<close> of the result is the sum over \<open>i\<close> of \<open>v[i] * m[i][j]\<close>; ValueError when
  the shapes are not aligned.
\<close>

definition np_dot :: "real list \<Rightarrow> real list list \<Rightarrow> error + real list" where
  "np_dot v m =
     (if length m \<noteq> length v then Inl ValueError
      else Inr (map (\<lambda>j. \<Sum>i\<leftarrow>[0..<length v]. v ! i * (m ! i) ! j) [0..<row_length m]))"

text \<open>
  \<open>LinearMatrix.execute\<close>: \<open>check_args\<close> validates and stores the variable, then
  \<open>np.dot(self.variable, self.matrix)\<close>; with an \<open>np.matrix\<close> the product is a matrix
  of one row.
\<close>

definition LinearMatrix_execute :: "linear_matrix \<Rightarrow> ndarray \<Rightarrow> error + ndarray" where
  "LinearMatrix_execute self v =
     (case LinearMatrix_validate_variable v of
        Inl e \<Rightarrow> Inl e
      | Inr xs \<Rightarrow>
         (case matrix self of
            None \<Rightarrow> Inl AttributeError
          | Some (NdArray m) \<Rightarrow> (case np_dot xs m of Inl e \<Rightarrow> Inl e | Inr ys \<Rightarrow> Inr (Arr1 ys))
          | Some (NpMatrix m) \<Rightarrow> (case np_dot xs m of Inl e \<Rightarrow> Inl e | Inr ys \<Rightarrow> Inr (Arr2 [ys]))))"

section \<open>Projections\<close>

text \<open>
  Modelled from the spec: \<open>iscompatible\<close> is imported from \<open>Main\<close>, which is not
  among the sources. Section 4.1: two values are compatible if both are single numbers,
  or both are sequences of numbers of equal length, or both are sequences of sequences
  with matching outer and inner lengths, or one is a single number and the other a
  sequence of length 1.
\<close>

fun iscompatible :: "ndarray \<Rightarrow> ndarray \<Rightarrow> bool" where
  "iscompatible (Arr0 x) (Arr0 y) = True"
| "iscompatible (Arr1 xs) (Arr1 ys) = (length xs = length ys)"
| "iscompatible (Arr2 a) (Arr2 b) = (length a = length b \<and> map length a = map length b)"
| "iscompatible (Arr0 x) (Arr1 ys) = (length ys = 1)"
| "iscompatible (Arr1 xs) (Arr0 y) = (length xs = 1)"
| "iscompatible v w = False"

text \<open>
  Objects are shared and mutated in place (a state's projection lists are appended to),
  so they live in a store and are named by references.
\<close>

type_synonym ref = nat

text \<open>The classes of states that the wiring code tells apart.\<close>

datatype state_class =
  MechanismInputState | MechanismOutputState | MechanismParameterState | ProcessInputState

text \<open>
  \<open>isinstance(x, MechanismOutputState)\<close> and \<open>issubclass(c, MechanismOutputState)\<close>.
  Modelled from the spec: \<open>ProcessInputState\<close> is declared in \<open>Functions/Process.py\<close>,
  which is not among the sources. Such a sender may feed the first unit of a chain
  (section 4.4), so it passes the test the base method applies to every sender: it is a
  kind of output state.
\<close>

fun is_MechanismOutputState :: "state_class \<Rightarrow> bool" where
  "is_MechanismOutputState MechanismOutputState = True"
| "is_MechanismOutputState ProcessInputState = True"
| "is_MechanismOutputState c = False"

text \<open>
  The attributes of a state that the wiring code reads or writes: its class, \<open>value\<close>,
  \<open>variable\<close>, \<open>ownerMechanism\<close>, \<open>sendsToProjections\<close> and
  \<open>receivesFromProjections\<close>.
\<close>

record mechanism_state =
  state_class :: state_class
  state_value :: ndarray
  state_variable :: ndarray
  ownerMechanism :: "ref option"
  sendsToProjections :: "ref list"
  receivesFromProjections :: "ref list"

text \<open>
  A stored object: a state, a mechanism with its \<open>name\<close>, \<open>inputState\<close> and
  \<open>outputState\<close>, or a process with its \<open>configurationMechanismNames\<close>.
\<close>

datatype object =
    State mechanism_state
  | Mechanism (mechanism_name: string) (inputState: ref) (outputState: ref)
  | Process (configurationMechanismNames: "string list")

text \<open>The store, and the next reference it will hand out.\<close>

record world =
  objects :: "ref \<Rightarrow> object option"
  next_ref :: ref

text \<open>
  What \<open>self.sender\<close> and \<open>self.receiver\<close> may hold: an object, a class of states, a
  class of mechanisms, or \<open>NotImplemented\<close> (nothing given).
\<close>

datatype endpoint = Object ref | StateClass state_class | MechanismClass | NotSpecified

text \<open>
  A Mapping projection: its own identity (the reference appended to the lists),
  \<open>sender\<close>, \<open>receiver\<close>, \<open>variable\<close>, \<open>value\<close> (if set), the parameters
  \<open>kwProjectionSender\<close>, \<open>kwProjectionSenderValue\<close> and \<open>kwExecuteMethodParams\<close>,
  the LinearMatrix function bound as its execute method (if any), and \<open>self_execute\<close>:
  whether the projection has an execute method of its own before one is instantiated
  from the parameters, and if so its output (\<open>self.value\<close> at that moment). The base
  class that decides this is not among the sources, so it is an argument of the
  construction.
\<close>

record projection =
  self_ref :: ref
  proj_sender :: endpoint
  proj_receiver :: endpoint
  proj_variable :: ndarray
  proj_value :: "ndarray option"
  kwProjectionSender :: state_class
  kwProjectionSenderValue :: ndarray
  kwExecuteMethodParams :: param_set
  execute_method :: "linear_matrix option"
  self_execute :: "ndarray option"

text \<open>The state an endpoint refers to, if it is one; storing a state.\<close>

definition get_state :: "world \<Rightarrow> endpoint \<Rightarrow> mechanism_state option" where
  "get_state w e =
     (case e of
        Object r \<Rightarrow> (case objects w r of Some (State s) \<Rightarrow> Some s | _ \<Rightarrow> None)
      | _ \<Rightarrow> None)"

definition put_state :: "world \<Rightarrow> ref \<Rightarrow> mechanism_state \<Rightarrow> world" where
  "put_state w r s = w\<lparr>objects := (objects w)(r := Some (State s))\<rparr>"

text \<open>
  Modelled from the spec: the default sender, "a default instance of that class using
  the declared default sender value" (section 4.4, step 2); the constructors of the
  state classes are not among the sources.
\<close>

definition new_state :: "world \<Rightarrow> state_class \<Rightarrow> ndarray \<Rightarrow> ref \<times> world" where
  "new_state w c v =
     (next_ref w,
      w\<lparr>objects := (objects w)(next_ref w := Some (State
            \<lparr>state_class = c, state_value = v, state_variable = v, ownerMechanism = None,
             sendsToProjections = [], receivesFromProjections = []\<rparr>)),
        next_ref := Suc (next_ref w)\<rparr>)"

text \<open>
  \<open>Projection_Base.instantiate_sender\<close>. A class is instantiated if it is an output
  state class; a mechanism is replaced by its output state; the sender must then be an
  output state; the projection is appended to the sender's \<open>sendsToProjections\<close>; the
  variable of the projection becomes the sender's value (directly if compatible, through
  \<open>assign_defaults\<close> otherwise). The result is the projection, or the error, and the
  store as the method leaves it.
\<close>

definition Projection_instantiate_sender ::
  "world \<Rightarrow> projection \<Rightarrow> (error + projection) \<times> world" where
  "Projection_instantiate_sender w self =
     (case (case proj_sender self of
              StateClass c \<Rightarrow>
                if is_MechanismOutputState c then
                  (let (r, w') = new_state w (kwProjectionSender self) (kwProjectionSenderValue self)
                   in Inr (Object r, w'))
                else Inl (ProjectionError SenderClassNotOutputState)
            | MechanismClass \<Rightarrow> Inl (ProjectionError SenderClassNotOutputState)
            | e \<Rightarrow> Inr (e, w)) of
        Inl err \<Rightarrow> (Inl err, w)
      | Inr (sender1, w1) \<Rightarrow>
          (let sender2 =
                 (case sender1 of
                    Object r \<Rightarrow>
                      (case objects w1 r of
                         Some (Mechanism n i out) \<Rightarrow> Object out
                       | _ \<Rightarrow> sender1)
                  | _ \<Rightarrow> sender1)
           in
           case sender2 of
             Object r \<Rightarrow>
               (case objects w1 r of
                  Some (State s) \<Rightarrow>
                    if \<not> is_MechanismOutputState (state_class s)
                    then (Inl (ProjectionError SenderNotOutputState), w1)
                    else
                      (let w2 = put_state w1 r
                                  (s\<lparr>sendsToProjections := sendsToProjections s @ [self_ref self]\<rparr>)
                       in
                       if iscompatible (proj_variable self) (state_value s)
                       then (Inr (self\<lparr>proj_sender := Object r, proj_variable := state_value s\<rparr>), w2)
                       else (Inr (self\<lparr>proj_sender := Object r, proj_variable := state_value s\<rparr>), w2))
                | _ \<Rightarrow> (Inl (ProjectionError SenderNotOutputState), w1))
           | _ \<Rightarrow> (Inl (ProjectionError SenderNotOutputState), w1)))"

text \<open>
  \<open>Mapping.instantiate_sender\<close>: if the sender is a ProcessInputState, the number of
  names in \<open>self.sender.ownerMechanism.configurationMechanismNames\<close> decides; above 1
  the method raises ProjectionError before anything is registered.
\<close>

definition Mapping_instantiate_sender ::
  "world \<Rightarrow> projection \<Rightarrow> (error + projection) \<times> world" where
  "Mapping_instantiate_sender w self =
     (case get_state w (proj_sender self) of
        Some s \<Rightarrow>
          if state_class s = ProcessInputState then
            (case (case ownerMechanism s of None \<Rightarrow> None | Some o' \<Rightarrow> objects w o') of
               Some (Process names) \<Rightarrow>
                 (let mech_num = length names in
                  if mech_num > 1 then (Inl (ProjectionError IllegalProcessInput), w)
                  else Projection_instantiate_sender w self)
             | _ \<Rightarrow> (Inl (AttributeError), w))
          else Projection_instantiate_sender w self
      | None \<Rightarrow> Projection_instantiate_sender w self)"

text \<open>
  \<open>Projection_Base.instantiate_receiver\<close>: a mechanism is replaced by its input state,
  and the projection is appended to the receiver's \<open>receivesFromProjections\<close>
  (AttributeError if the receiver has no such list).
\<close>

definition Projection_instantiate_receiver ::
  "world \<Rightarrow> projection \<Rightarrow> (error + projection) \<times> world" where
  "Projection_instantiate_receiver w self =
     (let receiver1 =
            (case proj_receiver self of
               Object r \<Rightarrow>
                 (case objects w r of
                    Some (Mechanism n i out) \<Rightarrow> Object i
                  | _ \<Rightarrow> proj_receiver self)
             | e \<Rightarrow> e)
      in
      case receiver1 of
        Object r \<Rightarrow>
          (case objects w r of
             Some (State s) \<Rightarrow>
               (Inr (self\<lparr>proj_receiver := Object r\<rparr>),
                put_state w r
                  (s\<lparr>receivesFromProjections := receivesFromProjections s @ [self_ref self]\<rparr>))
           | _ \<Rightarrow> (Inl (AttributeError), w))
      | _ \<Rightarrow> (Inl (AttributeError), w))"

text \<open>
  Modelled from the spec: \<open>Function.instantiate_execute_method\<close> is not among the
  sources. Section 4.4, step 4, and section 4.3: the transform (for Mapping, LinearMatrix)
  is built for the projection's variable with \<open>kwExecuteMethodParams\<close>, and called once
  on that variable to establish the projection's value.
\<close>

definition Function_instantiate_execute_method ::
  "projection \<Rightarrow> error + projection \<times> linear_matrix \<times> ndarray" where
  "Function_instantiate_execute_method self =
     (case LinearMatrix_init (proj_variable self) (kwExecuteMethodParams self) of
        Inl e \<Rightarrow> Inl e
      | Inr lm \<Rightarrow>
          (case LinearMatrix_execute lm (proj_variable self) of
             Inl e \<Rightarrow> Inl e
           | Inr v \<Rightarrow> Inr (self\<lparr>execute_method := Some lm, proj_value := Some v\<rparr>, lm, v)))"

text \<open>
  The outcome of the \<open>try\<close> block of \<open>instantiate_execute_method\<close>: the method
  returns, an exception leaves it, or control goes on to the final tests.
\<close>

datatype conversion = Returned projection | Raise error | Continue projection

text \<open>\<open>isinstance(x, numbers.Number)\<close> for a value of the store.\<close>

definition is_number :: "ndarray \<Rightarrow> bool" where
  "is_number v = (case v of Arr0 x \<Rightarrow> True | _ \<Rightarrow> False)"

text \<open>
  The \<open>try\<close> block. If the receiver's variable is a number and the output has length
  1, the output type of the transform is set to \<open>RAW_NUMBER\<close>. A UtilityError of the
  setter is caught, but its handler reads \<open>error.value\<close>, an attribute the exception
  does not have (the class stores \<open>error_value\<close>), so AttributeError leaves the method.
  Without an error the value is set to 0 and the method returns if the receiver's
  variable is compatible with a new call of execute. A
  TypeError inside the block leads to the \<open>except\<close> branch: after \<open>len\<close> of an
  unsized output the branch takes \<open>len\<close> of the receiver's variable, a number, which
  raises TypeError again; after a TypeError of another origin its test is false.
\<close>

definition try_conversion ::
  "projection \<Rightarrow> linear_matrix \<Rightarrow> ndarray \<Rightarrow> ndarray \<Rightarrow> conversion" where
  "try_conversion self lm projection_output rcv =
     (if is_number rcv then
        (case py_len projection_output of
           Inl e \<Rightarrow> Raise TypeError
         | Inr n \<Rightarrow>
             if n = 1 then
               (case functionOutputType_setter lm (OutputType RAW_NUMBER) of
                  Inl e \<Rightarrow> if e = UtilityError then Raise AttributeError else Continue self
                | Inr lm' \<Rightarrow>
                    (let self' = self\<lparr>execute_method := Some lm', proj_value := Some (Arr0 0)\<rparr> in
                     case LinearMatrix_execute lm' (variable lm') of
                       Inl e \<Rightarrow> if e = TypeError then Continue self' else Raise e
                     | Inr out \<Rightarrow>
                         if iscompatible rcv out then Returned self' else Continue self'))
             else Continue self)
      else Continue self)"

text \<open>
  \<open>Projection_Base.instantiate_execute_method\<close>: the execute method given by the
  parameters is instantiated; if its output is compatible with the receiver's variable
  the method returns; else the conversion is tried; else the method raises, unless the
  projection had an execute method of its own with a compatible output, which is then
  restored. Both \<open>raise ProjectionError\<close> statements build their message first. The
  first formats \<open>self.receiver.ownerMechanism.name\<close>: for a receiver without owner
  (\<open>None\<close>) the attribute lookup raises AttributeError and the ProjectionError is never
  constructed. The second formats \<open>self.execute.functionName\<close>; \<open>self.execute\<close> is a
  bound method (the code reads \<open>self.execute.__self__\<close>), which has no such attribute,
  so this site always raises AttributeError.
\<close>

definition Projection_instantiate_execute_method ::
  "world \<Rightarrow> projection \<Rightarrow> error + projection" where
  "Projection_instantiate_execute_method w self =
     (let self_execute_output = self_execute self in
      case Function_instantiate_execute_method self of
        Inl e \<Rightarrow> Inl e
      | Inr (self1, lm, v) \<Rightarrow>
          (case get_state w (proj_receiver self1) of
             None \<Rightarrow> Inl AttributeError
           | Some rs \<Rightarrow>
               if iscompatible v (state_variable rs) then Inr self1
               else
                 (case try_conversion self1 lm v (state_variable rs) of
                    Returned self2 \<Rightarrow> Inr self2
                  | Raise e \<Rightarrow> Inl e
                  | Continue self2 \<Rightarrow>
                      (case self_execute_output of
                         None \<Rightarrow>
                           (case ownerMechanism rs of
                              None \<Rightarrow> Inl AttributeError
                            | Some owner \<Rightarrow> Inl (ProjectionError OutputIncompatibleNoSelfExecute))
                       | Some out \<Rightarrow>
                           if \<not> iscompatible out (state_variable rs)
                           then Inl AttributeError
                           else Inr (self2\<lparr>execute_method := None, proj_value := Some out\<rparr>)))))"

text \<open>\<open>try: len(x) except TypeError: 1\<close>.\<close>

definition len_or_1 :: "ndarray \<Rightarrow> nat" where
  "len_or_1 v = (case py_len v of Inl e \<Rightarrow> 1 | Inr n \<Rightarrow> n)"

text \<open>
  \<open>Mapping.instantiate_execute_method\<close>: after the base method, the length of the
  receiver's value must equal the length of the projection's value.
\<close>

definition Mapping_instantiate_execute_method ::
  "world \<Rightarrow> projection \<Rightarrow> error + projection" where
  "Mapping_instantiate_execute_method w self =
     (case Projection_instantiate_execute_method w self of
        Inl e \<Rightarrow> Inl e
      | Inr self1 \<Rightarrow>
          (case (get_state w (proj_receiver self1), proj_value self1) of
             (Some rs, Some v) \<Rightarrow>
               (let receiver_len = len_or_1 (state_value rs);
                    mapping_input_len = len_or_1 v
                in
                if \<not> receiver_len = mapping_input_len
                then Inl (ProjectionError LengthMismatch)
                else Inr self1)
           | _ \<Rightarrow> Inl AttributeError))"

text \<open>
  \<open>Projection_Base.validate_params\<close> with \<open>kwProjectionSender\<close> left at the class
  default: when no sender argument was given, the default (a class) becomes the sender;
  a sender argument that is a mechanism, a state, a process or a class is kept.
\<close>

definition Projection_validate_params :: "projection \<Rightarrow> projection" where
  "Projection_validate_params self =
     (if proj_sender self = NotSpecified then self\<lparr>proj_sender := StateClass (kwProjectionSender self)\<rparr>
      else self)"

text \<open>
  \<open>Projection_Base.instantiate_attributes_before_execute_method\<close>: the sender, then
  the receiver. An exception ends the construction; the store keeps what was done.
\<close>

definition instantiate_attributes_before_execute_method ::
  "world \<Rightarrow> projection \<Rightarrow> (error + projection) \<times> world" where
  "instantiate_attributes_before_execute_method w self =
     (case Mapping_instantiate_sender w self of
        (Inl e, w1) \<Rightarrow> (Inl e, w1)
      | (Inr self1, w1) \<Rightarrow> Projection_instantiate_receiver w1 self1)"

text \<open>
  \<open>Mapping.paramClassDefaults\<close>: the parameters of the execute method are
  \<open>{kwMatrix: kwDefaultMatrix}\<close>, the default sender class is MechanismOutputState and
  the default sender value is \<open>[1]\<close>; \<open>variableClassDefault\<close> is \<open>[0]\<close>.
\<close>

definition Mapping_paramClassDefaults :: param_set where
  "Mapping_paramClassDefaults = [(kwMatrix, PString kwIdentityMatrix)]"

definition variableClassDefault :: ndarray where
  "variableClassDefault = Arr1 [0]"

text \<open>
  Construction of a Mapping projection with a new reference, a sender, a receiver and
  parameters for its execute method. \<open>Projection_Base.__init__\<close> takes the variable
  from the sender's value when it has one; the base class then runs \<open>validate_params\<close>,
  \<open>instantiate_attributes_before_execute_method\<close> and \<open>instantiate_execute_method\<close>
  (the instantiation sequence of \<open>READ_ME.py\<close>). The result is the projection or the
  error, together with the store after the call.
\<close>

definition Mapping_init ::
  "world \<Rightarrow> ref \<Rightarrow> endpoint \<Rightarrow> endpoint \<Rightarrow> param_set \<Rightarrow> ndarray option
     \<Rightarrow> (error + projection) \<times> world" where
  "Mapping_init w new sender_arg receiver_arg execute_method_params own_execute =
     (let self0 =
            \<lparr>self_ref = new, proj_sender = sender_arg, proj_receiver = receiver_arg,
             proj_variable =
               (case get_state w sender_arg of
                  Some s \<Rightarrow> state_value s
                | None \<Rightarrow> variableClassDefault),
             proj_value = own_execute,
             kwProjectionSender = MechanismOutputState,
             kwProjectionSenderValue = Arr1 [1],
             kwExecuteMethodParams = assign_defaults Mapping_paramClassDefaults execute_method_params,
             execute_method = None,
             self_execute = own_execute\<rparr>
      in
      case instantiate_attributes_before_execute_method w (Projection_validate_params self0) of
        (Inl e, w1) \<Rightarrow> (Inl e, w1)
      | (Inr self1, w1) \<Rightarrow> (Mapping_instantiate_execute_method w1 self1, w1))"

text \<open>\<open>Mapping.update\<close>: \<open>self.execute(self.sender.value)\<close>.\<close>

definition Mapping_update :: "world \<Rightarrow> projection \<Rightarrow> error + ndarray" where
  "Mapping_update w self =
     (case get_state w (proj_sender self) of
        None \<Rightarrow> Inl AttributeError
      | Some s \<Rightarrow>
          (case execute_method self of
             None \<Rightarrow> Inl AttributeError
           | Some lm \<Rightarrow> LinearMatrix_execute lm (state_value s)))"

text \<open>The two lists of the object stored under a reference (empty if it is not a state).\<close>

definition sendsToProjections_of :: "world \<Rightarrow> ref \<Rightarrow> ref list" where
  "sendsToProjections_of w r =
     (case objects w r of Some (State s) \<Rightarrow> sendsToProjections s | _ \<Rightarrow> [])"

definition receivesFromProjections_of :: "world \<Rightarrow> ref \<Rightarrow> ref list" where
  "receivesFromProjections_of w r =
     (case objects w r of Some (State s) \<Rightarrow> receivesFromProjections s | _ \<Rightarrow> [])"

text \<open>
  A store for the examples. Mechanism A (17) has the input state 12 of length 2 and the
  output state 10 with value \<open>[1, 2]\<close>; mechanism B (18) has the input state 11 of length
  3 and the output state 19. The process 14 lists A and B, the process 16 lists A alone;
  13 and 15 are their ProcessInputStates.
\<close>

definition new_mechanism_state :: "state_class \<Rightarrow> ndarray \<Rightarrow> ref option \<Rightarrow> object" where
  "new_mechanism_state c v owner =
     State \<lparr>state_class = c, state_value = v, state_variable = v, ownerMechanism = owner,
            sendsToProjections = [], receivesFromProjections = []\<rparr>"

definition example_world :: world where
  "example_world =
     \<lparr>objects = [10 \<mapsto> new_mechanism_state MechanismOutputState (Arr1 [1, 2]) (Some 17),
                  11 \<mapsto> new_mechanism_state MechanismInputState (Arr1 [0, 0, 0]) (Some 18),
                  12 \<mapsto> new_mechanism_state MechanismInputState (Arr1 [0, 0]) (Some 17),
                  13 \<mapsto> new_mechanism_state ProcessInputState (Arr1 [5, 6]) (Some 14),
                  14 \<mapsto> Process [''A'', ''B''],
                  15 \<mapsto> new_mechanism_state ProcessInputState (Arr1 [5, 6]) (Some 16),
                  16 \<mapsto> Process [''A''],
                  17 \<mapsto> Mechanism ''A'' 12 10,
                  18 \<mapsto> Mechanism ''B'' 11 19,
                  19 \<mapsto> new_mechanism_state MechanismOutputState (Arr1 [0, 0, 0]) (Some 18)],
      next_ref = 20\<rparr>"


section \<open>Properties\<close>

text \<open>
  C4. For every two-element variable \<open>[old, new]\<close> and every rate, Integrator.execute
  returns \<open>old + rate\<close> under LINEAR (the new value is ignored), \<open>old + rate * new\<close> under
  SCALED and \<open>(1 - rate) * old + rate * new\<close> under TIME_AVERAGED; with old = 10, new = 4
  and rate = 0.5 the three policies return 10.5, 12 and 7.
\<close>

theorem Integrator_policies:
  "Integrator_execute [old, new] rate (Policy LINEAR :: 'a weighting_param) = Inr (old + rate)
   \<and> Integrator_execute [old, new] rate (Policy SCALED :: 'a weighting_param) = Inr (old + rate * new)
   \<and> Integrator_execute [old, new] rate (Policy TIME_AVERAGED :: 'a weighting_param)
        = Inr ((1 - rate) * old + rate * new)
   \<and> Integrator_execute [10, 4] (1 / 2) (Policy LINEAR :: 'a weighting_param) = Inr (21 / 2)
   \<and> Integrator_execute [10, 4] (1 / 2) (Policy SCALED :: 'a weighting_param) = Inr 12
   \<and> Integrator_execute [10, 4] (1 / 2) (Policy TIME_AVERAGED :: 'a weighting_param) = Inr 7"
  by (simp add: mult.commute)

text \<open>
  C9. When the weighting parameter is none of LINEAR, SCALED and TIME_AVERAGED,
  Integrator.execute raises nothing and returns the new value (the second element of the
  variable), whatever the old value and the rate are.
\<close>

theorem Integrator_unknown_weighting:
  "Integrator_execute [old, new] rate (OtherWeighting x) = Inr new"
  by simp

subsection \<open>Arithmetic: column sums and products\<close>

lemma foldl_row_op:
  assumes "\<forall>row\<in>set terms. length row = k" and "length acc = k"
  shows "foldl (row_op f) (Arr1 acc) terms
         = Arr1 (map (\<lambda>j. foldl f (acc ! j) (map (\<lambda>row. row ! j) terms)) [0..<k])"
  using assms
proof (induction terms arbitrary: acc)
  case Nil
  have "map ((!) acc) [0..<length acc] = acc" by (rule map_nth)
  with Nil show ?case by auto
next
  case (Cons row terms)
  have len: "length (map2 f acc row) = k" using Cons.prems by simp
  have "foldl (row_op f) (Arr1 acc) (row # terms) = foldl (row_op f) (Arr1 (map2 f acc row)) terms"
    by simp
  also have "\<dots> = Arr1 (map (\<lambda>j. foldl f (map2 f acc row ! j) (map (\<lambda>row. row ! j) terms)) [0..<k])"
    using Cons.IH [OF _ len] Cons.prems by simp
  also have "\<dots> = Arr1 (map (\<lambda>j. foldl f (acc ! j) (map (\<lambda>row. row ! j) (row # terms))) [0..<k])"
    using Cons.prems by simp
  finally show ?case .
qed

lemma foldl_add_sum_list: "foldl (+) (a::real) xs = a + sum_list xs"
  by (induction xs arbitrary: a) (simp_all add: add.assoc)

lemma foldl_mult_prod_list: "foldl (*) (a::real) xs = a * prod_list xs"
  by (induction xs arbitrary: a) (simp_all add: mult.assoc)

lemma py_sum_Nil: "py_sum [] = Arr0 0"
  by (simp add: py_sum_def)

lemma reduce_mul_Nil: "reduce_mul [] = Arr0 1"
  by (simp add: reduce_mul_def)

lemma py_sum_rect:
  assumes "\<forall>row\<in>set terms. length row = k" and "terms \<noteq> []"
  shows "py_sum terms = Arr1 (map (\<lambda>j. (\<Sum>row\<leftarrow>terms. row ! j)) [0..<k])"
proof -
  obtain r rs where t: "terms = r # rs" using assms(2) by (cases terms) auto
  have lr: "length r = k" and rest: "\<forall>row\<in>set rs. length row = k" using assms(1) t by auto
  have "py_sum terms = foldl (row_op (+)) (Arr1 (map ((+) 0) r)) rs"
    by (simp add: py_sum_def t)
  also have "\<dots> = Arr1 (map (\<lambda>j. foldl (+) (map ((+) 0) r ! j) (map (\<lambda>row. row ! j) rs)) [0..<k])"
    using foldl_row_op [OF rest, of "map ((+) 0) r" "(+)"] lr by simp
  also have "\<dots> = Arr1 (map (\<lambda>j. (\<Sum>row\<leftarrow>terms. row ! j)) [0..<k])"
    using lr by (simp add: foldl_add_sum_list t)
  finally show ?thesis .
qed

lemma reduce_mul_rect:
  assumes "\<forall>row\<in>set terms. length row = k" and "terms \<noteq> []"
  shows "reduce_mul terms = Arr1 (map (\<lambda>j. (\<Prod>row\<leftarrow>terms. row ! j)) [0..<k])"
proof -
  obtain r rs where t: "terms = r # rs" using assms(2) by (cases terms) auto
  have lr: "length r = k" and rest: "\<forall>row\<in>set rs. length row = k" using assms(1) t by auto
  have "reduce_mul terms = foldl (row_op (*)) (Arr1 (map ((*) 1) r)) rs"
    by (simp add: reduce_mul_def t)
  also have "\<dots> = Arr1 (map (\<lambda>j. foldl (*) (map ((*) 1) r ! j) (map (\<lambda>row. row ! j) rs)) [0..<k])"
    using foldl_row_op [OF rest, of "map ((*) 1) r" "(*)"] lr by simp
  also have "\<dots> = Arr1 (map (\<lambda>j. (\<Prod>row\<leftarrow>terms. row ! j)) [0..<k])"
    using lr by (simp add: foldl_mult_prod_list t)
  finally show ?thesis .
qed

text \<open>
  C10. On a variable that is a single number or a 1-d sequence of numbers,
  Arithmetic.execute returns \<open>variable * scale + offset\<close>, whatever the weights and the
  operation are: SUM and PRODUCT give the same result, and scale and offset are applied
  under PRODUCT too.
\<close>

theorem Arithmetic_less_than_2d:
  "Arithmetic_execute (Arr0 x) weights operation offset scale = Inr (Arr0 (x * scale + offset))
   \<and> Arithmetic_execute (Arr1 xs) weights operation offset scale
       = Inr (Arr1 (map (\<lambda>x. x * scale + offset) xs))"
  by (simp add: Arithmetic_execute_def)

text \<open>
  Without weights, on every 2-d variable whose rows have the length \<open>k\<close>: under SUM
  Arithmetic.execute returns, position by position, the sum of the terms times scale plus
  offset; under PRODUCT it returns the product of the terms, and neither scale nor offset
  appears in the result. (Without any term, Python's \<open>sum\<close> and \<open>reduce\<close> return
  their start values 0 and 1.)
\<close>

lemma Arithmetic_no_weights_sum_product:
  assumes "\<forall>row\<in>set rows. length row = k"
  shows "Arithmetic_execute (Arr2 rows) NotImplemented (Op Operation_SUM :: 'a operation_param) offset scale
           = Inr (if rows = [] then Arr0 offset
                  else Arr1 (map (\<lambda>j. (\<Sum>row\<leftarrow>rows. row ! j) * scale + offset) [0..<k]))
       \<and> Arithmetic_execute (Arr2 rows) NotImplemented (Op Operation_PRODUCT :: 'a operation_param) offset scale
           = Inr (if rows = [] then Arr0 1
                  else Arr1 (map (\<lambda>j. (\<Prod>row\<leftarrow>rows. row ! j)) [0..<k]))"
proof (cases "rows = []")
  case True
  then show ?thesis
    by (simp add: Arithmetic_execute_def Arithmetic_apply_weights_def Arithmetic_combine_def
        py_sum_Nil reduce_mul_Nil)
next
  case False
  have s: "py_sum rows = Arr1 (map (\<lambda>j. (\<Sum>row\<leftarrow>rows. row ! j)) [0..<k])"
    using py_sum_rect [OF assms False] .
  have p: "reduce_mul rows = Arr1 (map (\<lambda>j. (\<Prod>row\<leftarrow>rows. row ! j)) [0..<k])"
    using reduce_mul_rect [OF assms False] .
  show ?thesis
    using False
    by (simp add: Arithmetic_execute_def Arithmetic_apply_weights_def Arithmetic_combine_def
        s p o_def)
qed

lemma Arithmetic_no_weights_example:
  "Arithmetic_execute (Arr2 [[1, 2, 3], [4, 5, 6]]) NotImplemented (Op Operation_SUM :: unit operation_param) 1 2
     = Inr (Arr1 [11, 15, 19])
   \<and> Arithmetic_execute (Arr2 [[1, 2, 3], [4, 5, 6]]) NotImplemented (Op Operation_PRODUCT :: unit operation_param) 1 2
     = Inr (Arr1 [4, 10, 18])"
proof -
  have r: "\<forall>row\<in>set [[1, 2, 3], [4, 5, 6 :: real]]. length row = 3" by simp
  have u: "[0..<3] = [0, 1, 2]" by (simp add: upt_rec)
  show ?thesis
    using Arithmetic_no_weights_sum_product [OF r, where 'a = unit, of 1 2]
    by (simp add: u)
qed

text \<open>
  C5 fails on the code for matching weights. The three terms \<open>[2]\<close>, \<open>[3]\<close>, \<open>[4]\<close>
  with the three weights \<open>1, 0, 1\<close> (the example of the specification): validate_params
  raises AttributeError on the weights; execute, given the list as it is, multiplies it
  along the columns instead of term by term and returns \<open>[9, 0, 9]\<close> under SUM where the
  sum of the weighted terms is \<open>[6]\<close>, and \<open>[24, 0, 24]\<close> under PRODUCT where the
  product of the weighted terms is \<open>[0]\<close>. Two terms of length 3 with two weights raise
  ValueError, where the sum of the weighted terms is \<open>[5, 7, 9]\<close>. (The sum and product
  of the weighted terms are computed by the unweighted path of execute itself.)
\<close>

theorem Arithmetic_matching_weights_diverge:
  "length [1, 0, 1 :: real] = length [[2], [3], [4 :: real]]
   \<and> Arithmetic_validate_params (WeightsList [1, 0, 1]) (Op Operation_SUM :: unit operation_param)
       = Inl AttributeError
   \<and> Arithmetic_execute (Arr2 [[2], [3], [4]]) (WeightsList [1, 0, 1]) (Op Operation_SUM :: unit operation_param) 0 1
       = Inr (Arr1 [9, 0, 9])
   \<and> Arithmetic_execute (Arr2 (spec_weighted_terms [[2], [3], [4]] [1, 0, 1])) NotImplemented
         (Op Operation_SUM :: unit operation_param) 0 1
       = Inr (Arr1 [6])
   \<and> Arithmetic_execute (Arr2 [[2], [3], [4]]) (WeightsList [1, 0, 1]) (Op Operation_PRODUCT :: unit operation_param) 0 1
       = Inr (Arr1 [24, 0, 24])
   \<and> Arithmetic_execute (Arr2 (spec_weighted_terms [[2], [3], [4]] [1, 0, 1])) NotImplemented
         (Op Operation_PRODUCT :: unit operation_param) 0 1
       = Inr (Arr1 [0])
   \<and> length [1, 1 :: real] = length [[1, 2, 3], [4, 5, 6 :: real]]
   \<and> Arithmetic_execute (Arr2 [[1, 2, 3], [4, 5, 6]]) (WeightsList [1, 1]) (Op Operation_SUM :: unit operation_param) 0 1
       = Inl ValueError
   \<and> Arithmetic_execute (Arr2 (spec_weighted_terms [[1, 2, 3], [4, 5, 6]] [1, 1])) NotImplemented
         (Op Operation_SUM :: unit operation_param) 0 1
       = Inr (Arr1 [5, 7, 9])"
  by (simp add: Arithmetic_validate_params_def weights_truth_def Arithmetic_execute_def
      Arithmetic_apply_weights_def np_multiply_def row_length_def Arithmetic_combine_def
      py_sum_def reduce_mul_def spec_weighted_terms_def)

text \<open>
  C6, as stated, fails on an empty weights list: its length differs from the number of
  terms, yet validate_params accepts it and execute raises nothing and returns the
  unweighted sum.
\<close>

theorem Arithmetic_empty_weights_counterexample:
  "length ([] :: real list) \<noteq> length [[2], [3], [4 :: real]]
   \<and> Arithmetic_validate_params (WeightsList []) (Op Operation_SUM :: unit operation_param)
       = Inr (WeightsList [])
   \<and> Arithmetic_execute (Arr2 [[2], [3], [4]]) (WeightsList []) (Op Operation_SUM :: unit operation_param) 0 1
       = Inr (Arr1 [9])"
  by (simp add: Arithmetic_validate_params_def weights_truth_def Arithmetic_execute_def
      Arithmetic_apply_weights_def Arithmetic_combine_def py_sum_def)

text \<open>
  C6, amended. On a 2-d variable, Arithmetic.execute raises UtilityError for every
  non-empty weights list whose length differs from the number of terms, whatever the
  operation, scale and offset are: the weights are neither truncated nor padded. An empty
  weights list is treated as if no weights had been given.
\<close>

theorem Arithmetic_weights_mismatch:
  "(ws \<noteq> [] \<and> length ws \<noteq> length rows \<longrightarrow>
      Arithmetic_execute (Arr2 rows) (WeightsList ws) operation offset scale = Inl UtilityError)
   \<and> Arithmetic_execute (Arr2 rows) (WeightsList []) operation offset scale
       = Arithmetic_execute (Arr2 rows) NotImplemented operation offset scale"
  by (simp add: Arithmetic_execute_def Arithmetic_apply_weights_def weights_truth_def)

theorem Arithmetic_weights_mismatch_witness:
  "[1, 2 :: real] \<noteq> [] \<and> length [1, 2 :: real] \<noteq> length [[2], [3], [4 :: real]]
   \<and> Arithmetic_execute (Arr2 [[2], [3], [4]]) (WeightsList [1, 2]) (Op Operation_SUM :: unit operation_param) 0 1
       = Inl UtilityError"
  using Arithmetic_weights_mismatch [of "[1, 2]" "[[2], [3], [4]]" "Op Operation_SUM :: unit operation_param" 0 1]
  by simp

text \<open>
  The weighted example of the specification (terms 2, 3, 4 with weights 1, 0, 1) is not
  reached by the code: validate_params raises AttributeError on every non-empty weights
  list, and execute, given the list unvalidated, multiplies it along the columns.
\<close>

lemma Arithmetic_validate_params_weights_list:
  "ws \<noteq> [] \<Longrightarrow> Arithmetic_validate_params (WeightsList ws) operation = Inl AttributeError"
  by (simp add: Arithmetic_validate_params_def weights_truth_def)

lemma Arithmetic_execute_weights_example:
  "Arithmetic_execute (Arr2 [[2], [3], [4]]) (WeightsList [1, 0, 1]) (Op Operation_SUM :: unit operation_param) 0 1
     = Inr (Arr1 [9, 0, 9])"
  by (simp add: Arithmetic_execute_def Arithmetic_apply_weights_def weights_truth_def
      np_multiply_def row_length_def Arithmetic_combine_def py_sum_def)

text \<open>
  C3 fails on the code. A Linear function with the two-element variable \<open>[7, 8]\<close> is
  constructed (its output type is \<open>None\<close>); assigning \<open>RAW_NUMBER\<close> raises nothing and
  stores the mode, because the setter compares the mode held before the assignment with
  \<open>RAW_NUMBER\<close>. The next call of execute raises nothing either and returns both
  numbers; only a second assignment to the property raises.
\<close>

theorem functionOutputType_setter_raw_number_accepted:
  "Linear_init (Arr1 [7, 8])
     = Inr \<lparr>variable = Arr1 [7, 8], functionOutputTypeConversion = True,
            functionOutputType_attr = NoneValue\<rparr>
   \<and> functionOutputType_setter
        \<lparr>variable = Arr1 [7, 8], functionOutputTypeConversion = True,
         functionOutputType_attr = NoneValue\<rparr> (OutputType RAW_NUMBER)
     = Inr \<lparr>variable = Arr1 [7, 8], functionOutputTypeConversion = True,
            functionOutputType_attr = OutputType RAW_NUMBER\<rparr>
   \<and> Linear_execute
        \<lparr>variable = Arr1 [7, 8], functionOutputTypeConversion = True,
         functionOutputType_attr = OutputType RAW_NUMBER\<rparr> 1 0
     = Inr (Arr1 [7, 8])
   \<and> functionOutputType_setter
        \<lparr>variable = Arr1 [7, 8], functionOutputTypeConversion = True,
         functionOutputType_attr = OutputType RAW_NUMBER\<rparr> NoneValue
     = Inl UtilityError"
  by (simp add: Linear_init_def functionOutputType_setter_def functionOutputType_def
      Linear_execute_def)

text \<open>
  In general the assignment of \<open>RAW_NUMBER\<close> is accepted on every sized variable, of any
  length, unless the mode read back before the assignment is already \<open>RAW_NUMBER\<close>.
\<close>

lemma functionOutputType_setter_raw_number:
  assumes "py_len (variable self) = Inr n"
    and "functionOutputType self \<noteq> OutputType RAW_NUMBER"
  shows "functionOutputType_setter self (OutputType RAW_NUMBER)
         = Inr (self\<lparr>functionOutputType_attr := OutputType RAW_NUMBER\<rparr>)"
  using assms by (simp add: functionOutputType_setter_def)

subsection \<open>LinearMatrix\<close>

lemma np_identity_nth:
  "i < n \<Longrightarrow> j < n \<Longrightarrow> (np_identity n ! i) ! j = (if i = j then 1 else 0)"
  by (simp add: np_identity_def)

lemma length_np_identity: "length (np_identity n) = n"
  by (simp add: np_identity_def)

lemma row_length_np_identity: "row_length (np_identity n) = n"
proof (cases n)
  case 0
  then show ?thesis by (simp add: np_identity_def row_length_def)
next
  case (Suc m)
  have "np_identity n \<noteq> []" using Suc by (simp add: np_identity_def)
  then obtain r rs where rr: "np_identity n = r # rs" by (cases "np_identity n") auto
  have "r = np_identity n ! 0" using rr by simp
  also have "\<dots> = map (\<lambda>j. if 0 = j then 1 else 0) [0..<n]"
    using Suc by (simp add: np_identity_def del: upt_Suc)
  finally have "length r = n" by simp
  then show ?thesis using rr by (simp add: row_length_def)
qed

lemma sum_list_delta:
  assumes "j < n"
  shows "(\<Sum>i\<leftarrow>[0..<n]. (v ! i) * (if i = j then 1 else 0 :: real)) = v ! j"
proof -
  have "(\<Sum>i\<leftarrow>[0..<n]. (v ! i) * (if i = j then 1 else 0 :: real))
        = (\<Sum>i\<in>{0..<n}. (v ! i) * (if i = j then 1 else 0))"
    by (simp add: interv_sum_list_conv_sum_set_nat)
  also have "\<dots> = (\<Sum>i\<in>{0..<n}. if i = j then v ! i else 0)"
    by (rule sum.cong) auto
  also have "\<dots> = v ! j" using assms by (simp add: sum.delta)
  finally show ?thesis .
qed

lemma np_dot_identity: "np_dot v (np_identity (length v)) = Inr v"
proof -
  let ?n = "length v"
  have "map (\<lambda>j. \<Sum>i\<leftarrow>[0..<?n]. v ! i * (np_identity ?n ! i) ! j) [0..<?n] = v"
  proof (rule nth_equalityI)
    show "length (map (\<lambda>j. \<Sum>i\<leftarrow>[0..<?n]. v ! i * (np_identity ?n ! i) ! j) [0..<?n]) = length v"
      by simp
  next
    fix j assume "j < length (map (\<lambda>j. \<Sum>i\<leftarrow>[0..<?n]. v ! i * (np_identity ?n ! i) ! j) [0..<?n])"
    then have j: "j < ?n" by simp
    have "(\<Sum>i\<leftarrow>[0..<?n]. v ! i * (np_identity ?n ! i) ! j)
          = (\<Sum>i\<leftarrow>[0..<?n]. v ! i * (if i = j then 1 else 0))"
      by (rule arg_cong [where f = sum_list], rule map_cong) (simp_all add: np_identity_nth j)
    also have "\<dots> = v ! j" by (rule sum_list_delta [OF j])
    finally show "map (\<lambda>j. \<Sum>i\<leftarrow>[0..<?n]. v ! i * (np_identity ?n ! i) ! j) [0..<?n] ! j = v ! j"
      using j by simp
  qed
  then show ?thesis
    by (simp add: np_dot_def length_np_identity row_length_np_identity)
qed

lemma set_param_map_of: "map_of (set_param ps k v) k = Some v"
  by (induction ps) auto

lemma set_param_map_of_other: "k' \<noteq> k \<Longrightarrow> map_of (set_param ps k v) k' = map_of ps k'"
  by (induction ps) auto

lemma validate_items_matrix_rejected:
  assumes "map_of items kwMatrix = Some spec"
    and "\<And>ps. validate_matrix_param sender rcv spec ps = Inl UtilityError"
  shows "validate_items sender rcv items ps message = Inl UtilityError"
  using assms(1)
proof (induction items arbitrary: ps message)
  case Nil
  then show ?case by simp
next
  case (Cons item items)
  obtain k v where item: "item = (k, v)" by (cases item)
  show ?case
  proof (cases "k = kwMatrix")
    case True
    then have "v = spec" using Cons.prems item by simp
    then show ?thesis using True item assms(2) by simp
  next
    case False
    then have "map_of items kwMatrix = Some spec" using Cons.prems item by simp
    then show ?thesis using Cons.IH False item by simp
  qed
qed

lemma validate_matrix_param_shape:
  assumes "matrix_shape spec = Inr (r, c)" and "r \<noteq> length sender \<or> c \<noteq> length rcv"
  shows "validate_matrix_param sender rcv spec ps = Inl UtilityError"
  using assms by (cases spec) auto

lemma LinearMatrix_validate_params_shape:
  assumes "map_of target_set kwMatrix = Some spec"
    and "matrix_shape spec = Inr (r, c)"
    and "map_of target_set kwReceiver = Some (PList rcv)"
    and "r \<noteq> length sender \<or> c \<noteq> length rcv"
  shows "LinearMatrix_validate_params sender target_set = Inl UtilityError"
proof -
  have "validate_items sender rcv target_set target_set False = Inl UtilityError"
    by (rule validate_items_matrix_rejected [OF assms(1)])
       (rule validate_matrix_param_shape [OF assms(2) assms(4)])
  then show ?thesis
    using assms(3) by (simp add: LinearMatrix_validate_params_def validate_receiver_def)
qed

lemma LinearMatrix_validate_params_shape_no_receiver:
  assumes "map_of target_set kwMatrix = Some spec"
    and "matrix_shape spec = Inr (r, c)"
    and "map_of target_set kwReceiver = None"
    and "r \<noteq> length sender \<or> c \<noteq> length sender"
  shows "LinearMatrix_validate_params sender target_set = Inl UtilityError"
proof -
  let ?ps = "set_param target_set kwReceiver (PList sender)"
  have m: "map_of ?ps kwMatrix = Some spec"
    using assms(1) by (simp add: set_param_map_of_other)
  have "validate_items sender sender ?ps ?ps False = Inl UtilityError"
    by (rule validate_items_matrix_rejected [OF m])
       (rule validate_matrix_param_shape [OF assms(2) assms(4)])
  then show ?thesis
    using assms(3) by (simp add: LinearMatrix_validate_params_def validate_receiver_def)
qed

lemma LinearMatrix_validate_params_match:
  assumes "matrix_shape spec = Inr (length sender, length rcv)"
  shows "LinearMatrix_validate_params sender
           (assign_defaults LinearMatrix_paramClassDefaults [(kwReceiver, PList rcv), (kwMatrix, spec)])
         = Inr (rcv, [(kwFunctionOutputTypeConversion, PBool False), (kwMatrix, spec),
                      (kwReceiver, PList rcv)])"
  using assms
  by (cases spec)
     (auto simp: LinearMatrix_validate_params_def validate_receiver_def assign_defaults_def
        LinearMatrix_paramClassDefaults_def)

text \<open>
  C7. The first half holds: validate_params raises UtilityError for every matrix whose
  row count differs from the sender's length or whose column count differs from the
  receiver's (lemmas \<open>LinearMatrix_validate_params_shape\<close> and
  \<open>LinearMatrix_validate_params_shape_no_receiver\<close>). The second half fails on the
  code: a 2 by 2 matrix given as a list of lists, with a sender and a receiver of length
  2, passes validate_params, but \<open>implement_matrix\<close> returns only an \<open>np.matrix\<close> as
  it is, so the construction ends in the UtilityError of its last line.
\<close>

theorem LinearMatrix_list_matrix_rejected:
  "matrix_shape (PListOfLists [[1, 2], [3, 4]]) = Inr (length [0, 0 :: real], length [0, 0 :: real])
   \<and> LinearMatrix_validate_params [0, 0]
        (assign_defaults LinearMatrix_paramClassDefaults
           [(kwReceiver, PList [0, 0]), (kwMatrix, PListOfLists [[1, 2], [3, 4]])])
     = Inr ([0, 0], [(kwFunctionOutputTypeConversion, PBool False),
                     (kwMatrix, PListOfLists [[1, 2], [3, 4]]), (kwReceiver, PList [0, 0])])
   \<and> implement_matrix [0, 0] (Some [0, 0]) (PListOfLists [[1, 2], [3, 4]]) = Inl UtilityError
   \<and> LinearMatrix_init (Arr1 [0, 0]) [(kwReceiver, PList [0, 0]), (kwMatrix, PListOfLists [[1, 2], [3, 4]])]
     = Inl UtilityError"
  by (simp add: LinearMatrix_init_def LinearMatrix_validate_variable_def
      LinearMatrix_validate_params_def validate_receiver_def assign_defaults_def
      LinearMatrix_paramClassDefaults_def implement_matrix_def rectangular_def row_length_def
      kwIdentityMatrix_def np_identity_def)

lemma LinearMatrix_init_identity:
  "LinearMatrix_init (Arr1 v) [(kwMatrix, PString kwIdentityMatrix)]
   = Inr \<lparr>variable = Arr1 v, functionOutputTypeConversion = False,
          functionOutputType_attr = NoneValue, receiver = Some v,
          paramsCurrent = [(kwFunctionOutputTypeConversion, PBool False),
                           (kwMatrix, PString kwIdentityMatrix), (kwReceiver, PList v)],
          matrix = Some (NdArray (np_identity (length v)))\<rparr>"
  by (simp add: LinearMatrix_init_def LinearMatrix_validate_variable_def
      LinearMatrix_validate_params_def validate_receiver_def assign_defaults_def
      LinearMatrix_paramClassDefaults_def implement_matrix_def param_truth_def)

text \<open>
  A matrix that is not square is refused even as an \<open>np.matrix\<close> of the right shape:
  the hook run before \<open>__init__\<close> sets the matrix asks for the identity, which needs
  equal lengths. A square \<open>np.matrix\<close> of the right shape is accepted.
\<close>

lemma LinearMatrix_nonsquare_rejected:
  "LinearMatrix_init (Arr1 [0, 0])
     [(kwReceiver, PList [0, 0, 0]), (kwMatrix, PNpMatrix [[1, 2, 3], [4, 5, 6]])]
   = Inl UtilityError"
  by (simp add: LinearMatrix_init_def LinearMatrix_validate_variable_def
      LinearMatrix_validate_params_def validate_receiver_def assign_defaults_def
      LinearMatrix_paramClassDefaults_def implement_matrix_def row_length_def)

lemma LinearMatrix_square_np_matrix_accepted:
  "LinearMatrix_init (Arr1 [0, 0])
     [(kwReceiver, PList [0, 0]), (kwMatrix, PNpMatrix [[1, 2], [3, 4]])]
   = Inr \<lparr>variable = Arr1 [0, 0], functionOutputTypeConversion = False,
          functionOutputType_attr = NoneValue, receiver = Some [0, 0],
          paramsCurrent = [(kwFunctionOutputTypeConversion, PBool False),
                           (kwMatrix, PNpMatrix [[1, 2], [3, 4]]), (kwReceiver, PList [0, 0])],
          matrix = Some (NpMatrix [[1, 2], [3, 4]])\<rparr>"
  by (simp add: LinearMatrix_init_def LinearMatrix_validate_variable_def
      LinearMatrix_validate_params_def validate_receiver_def assign_defaults_def
      LinearMatrix_paramClassDefaults_def implement_matrix_def row_length_def param_truth_def
      kwIdentityMatrix_def np_identity_def)

subsection \<open>Projections: what each stage registers\<close>

lemma Projection_instantiate_sender_error:
  assumes "Projection_instantiate_sender w self = (Inl e, w1)"
    and "is_MechanismOutputState (kwProjectionSender self)"
  shows "w1 = w \<and> (e = ProjectionError SenderClassNotOutputState \<or> e = ProjectionError SenderNotOutputState)"
  using assms
  by (auto simp: Projection_instantiate_sender_def new_state_def Let_def
      split: endpoint.splits if_splits option.splits object.splits)

lemma Mapping_instantiate_sender_error:
  assumes "Mapping_instantiate_sender w self = (Inl e, w1)"
    and "is_MechanismOutputState (kwProjectionSender self)"
  shows "w1 = w \<and> (e = ProjectionError IllegalProcessInput \<or> e = AttributeError
           \<or> e = ProjectionError SenderClassNotOutputState \<or> e = ProjectionError SenderNotOutputState)"
  using assms Projection_instantiate_sender_error [of w self e w1]
  by (auto simp: Mapping_instantiate_sender_def Let_def
      split: option.splits object.splits if_splits)

lemma Projection_instantiate_sender_ok:
  assumes "Projection_instantiate_sender w self = (Inr self1, w1)"
    and "objects w (next_ref w) = None"
  shows "\<exists>s. proj_sender self1 = Object s
           \<and> sendsToProjections_of w1 s = sendsToProjections_of w s @ [self_ref self]
           \<and> (\<forall>r. receivesFromProjections_of w1 r = receivesFromProjections_of w r)
           \<and> self_ref self1 = self_ref self \<and> proj_receiver self1 = proj_receiver self"
  using assms
  by (auto simp: Projection_instantiate_sender_def new_state_def Let_def put_state_def
      sendsToProjections_of_def receivesFromProjections_of_def
      split: endpoint.splits if_splits option.splits object.splits)

lemma Mapping_instantiate_sender_ok:
  assumes "Mapping_instantiate_sender w self = (Inr self1, w1)"
    and "objects w (next_ref w) = None"
  shows "\<exists>s. proj_sender self1 = Object s
           \<and> sendsToProjections_of w1 s = sendsToProjections_of w s @ [self_ref self]
           \<and> (\<forall>r. receivesFromProjections_of w1 r = receivesFromProjections_of w r)
           \<and> self_ref self1 = self_ref self \<and> proj_receiver self1 = proj_receiver self"
  using assms Projection_instantiate_sender_ok [of w self self1 w1]
  by (auto simp: Mapping_instantiate_sender_def Let_def
      split: option.splits object.splits if_splits)

lemma Projection_instantiate_receiver_error:
  assumes "Projection_instantiate_receiver w self = (Inl e, w1)"
  shows "w1 = w \<and> e = AttributeError"
  using assms
  by (auto simp: Projection_instantiate_receiver_def Let_def
      split: endpoint.splits option.splits object.splits)

lemma Projection_instantiate_receiver_ok:
  assumes "Projection_instantiate_receiver w self = (Inr self1, w1)"
  shows "\<exists>r. proj_receiver self1 = Object r
           \<and> receivesFromProjections_of w1 r = receivesFromProjections_of w r @ [self_ref self]
           \<and> (\<forall>s. sendsToProjections_of w1 s = sendsToProjections_of w s)"
  using assms
  by (auto simp: Projection_instantiate_receiver_def Let_def put_state_def
      sendsToProjections_of_def receivesFromProjections_of_def
      split: endpoint.splits option.splits object.splits)

lemma validate_matrix_param_error:
  "validate_matrix_param sender rcv spec ps = Inl e \<Longrightarrow> e \<in> {UtilityError, ValueError, TypeError}"
  by (cases spec) (auto split: if_splits sum.splits)

lemma validate_items_error:
  "validate_items sender rcv items ps message = Inl e \<Longrightarrow> e \<in> {UtilityError, ValueError, TypeError}"
proof (induction items arbitrary: ps message)
  case Nil
  then show ?case by (simp split: if_splits)
next
  case (Cons item items)
  obtain k v where item: "item = (k, v)" by (cases item)
  show ?case
    using Cons.prems Cons.IH validate_matrix_param_error [of sender rcv v ps e]
    by (auto simp: item split: if_splits sum.splits)
qed

lemma LinearMatrix_validate_params_error:
  "LinearMatrix_validate_params sender ts = Inl e \<Longrightarrow> e \<in> {UtilityError, ValueError, TypeError}"
  using validate_items_error [of sender _ _ _ False e]
  by (auto simp: LinearMatrix_validate_params_def validate_receiver_def
      split: sum.splits option.splits param_value.splits prod.splits)

lemma implement_matrix_error:
  "implement_matrix sender rcv spec = Inl e \<Longrightarrow> e = UtilityError"
  by (auto simp: implement_matrix_def Let_def split: param_value.splits if_splits)

lemma LinearMatrix_init_error:
  "LinearMatrix_init v ps = Inl e \<Longrightarrow> e \<in> {UtilityError, ValueError, TypeError, KeyError}"
  using LinearMatrix_validate_params_error [of _ _ e] implement_matrix_error [of _ _ _ e]
  by (auto simp: LinearMatrix_init_def LinearMatrix_validate_variable_def
      split: sum.splits option.splits ndarray.splits prod.splits)

lemma LinearMatrix_execute_error:
  "LinearMatrix_execute lm v = Inl e \<Longrightarrow> e \<in> {UtilityError, ValueError, AttributeError}"
  by (auto simp: LinearMatrix_execute_def LinearMatrix_validate_variable_def np_dot_def
      split: sum.splits option.splits ndarray.splits matrix.splits if_splits)

lemma Function_instantiate_execute_method_error:
  "Function_instantiate_execute_method self = Inl e
   \<Longrightarrow> e \<in> {UtilityError, ValueError, TypeError, KeyError, AttributeError}"
  using LinearMatrix_init_error [of _ _ e] LinearMatrix_execute_error [of _ _ e]
  by (auto simp: Function_instantiate_execute_method_def split: sum.splits)

lemma try_conversion_error:
  "try_conversion self lm out rcv = Raise e
   \<Longrightarrow> e \<in> {UtilityError, ValueError, TypeError, AttributeError}"
  using LinearMatrix_execute_error [of _ _ e]
  by (auto simp: try_conversion_def Let_def split: if_splits sum.splits)

lemma Projection_instantiate_execute_method_error:
  assumes "Projection_instantiate_execute_method w self = Inl e"
  shows "e \<in> {UtilityError, ValueError, TypeError, KeyError, AttributeError,
               ProjectionError OutputIncompatibleNoSelfExecute}"
  using assms Function_instantiate_execute_method_error [of self e]
    try_conversion_error [of _ _ _ _ e]
  by (auto simp: Projection_instantiate_execute_method_def Let_def
      split: sum.splits option.splits prod.splits if_splits conversion.splits)

lemma Mapping_instantiate_execute_method_error:
  assumes "Mapping_instantiate_execute_method w self = Inl e"
  shows "e \<in> {UtilityError, ValueError, TypeError, KeyError, AttributeError,
               ProjectionError OutputIncompatibleNoSelfExecute,
               ProjectionError LengthMismatch}"
  using assms Projection_instantiate_execute_method_error [of w self e]
  by (auto simp: Mapping_instantiate_execute_method_def Let_def
      split: sum.splits option.splits prod.splits if_splits)

lemma Projection_validate_params_fields:
  "self_ref (Projection_validate_params self) = self_ref self
   \<and> kwProjectionSender (Projection_validate_params self) = kwProjectionSender self"
  by (simp add: Projection_validate_params_def)

text \<open>
  A failed construction with endpoints of any kind: a failure in instantiate_sender
  leaves the store unchanged, and after every error other than those of instantiate_sender
  and AttributeError some state's sendsToProjections and some state's
  receivesFromProjections hold the projection.
\<close>

lemma Mapping_init_failure_stages:
  assumes "Mapping_init w new sender_arg receiver_arg params own = (Inl e, w')"
    and "objects w (next_ref w) = None"
  shows "(e = ProjectionError IllegalProcessInput \<or> e = ProjectionError SenderClassNotOutputState
            \<or> e = ProjectionError SenderNotOutputState \<longrightarrow> w' = w)
       \<and> (e \<noteq> ProjectionError IllegalProcessInput \<and> e \<noteq> ProjectionError SenderClassNotOutputState
            \<and> e \<noteq> ProjectionError SenderNotOutputState \<and> e \<noteq> AttributeError \<longrightarrow>
            (\<exists>s r. sendsToProjections_of w' s = sendsToProjections_of w s @ [new]
                 \<and> receivesFromProjections_of w' r = receivesFromProjections_of w r @ [new]))"
proof -
  define self0 where "self0 = Projection_validate_params
     \<lparr>self_ref = new, proj_sender = sender_arg, proj_receiver = receiver_arg,
      proj_variable = (case get_state w sender_arg of Some s \<Rightarrow> state_value s
                       | None \<Rightarrow> variableClassDefault),
      proj_value = own, kwProjectionSender = MechanismOutputState,
      kwProjectionSenderValue = Arr1 [1],
      kwExecuteMethodParams = assign_defaults Mapping_paramClassDefaults params,
      execute_method = None, self_execute = own\<rparr>"
  have ref0: "self_ref self0 = new" and kw0: "is_MechanismOutputState (kwProjectionSender self0)"
    by (simp_all add: self0_def Projection_validate_params_fields)
  have init: "Mapping_init w new sender_arg receiver_arg params own =
      (case instantiate_attributes_before_execute_method w self0 of
         (Inl e, w1) \<Rightarrow> (Inl e, w1)
       | (Inr self1, w1) \<Rightarrow> (Mapping_instantiate_execute_method w1 self1, w1))"
    by (simp add: Mapping_init_def self0_def Let_def)
  obtain res1 w1 where s1: "Mapping_instantiate_sender w self0 = (res1, w1)"
    by (cases "Mapping_instantiate_sender w self0")
  show ?thesis
  proof (cases res1)
    case (Inl e1)
    have "w1 = w \<and> (e1 = ProjectionError IllegalProcessInput \<or> e1 = AttributeError
           \<or> e1 = ProjectionError SenderClassNotOutputState \<or> e1 = ProjectionError SenderNotOutputState)"
      using Mapping_instantiate_sender_error [OF _ kw0] s1 Inl by simp
    moreover have "e = e1 \<and> w' = w1"
      using assms(1) init s1 Inl by (simp add: instantiate_attributes_before_execute_method_def)
    ultimately show ?thesis by auto
  next
    case (Inr self1)
    obtain s where s: "sendsToProjections_of w1 s = sendsToProjections_of w s @ [new]"
      and rs: "\<forall>r. receivesFromProjections_of w1 r = receivesFromProjections_of w r"
      and ref1: "self_ref self1 = new"
      using Mapping_instantiate_sender_ok [OF _ assms(2)] s1 Inr ref0 by blast
    obtain res2 w2 where s2: "Projection_instantiate_receiver w1 self1 = (res2, w2)"
      by (cases "Projection_instantiate_receiver w1 self1")
    have before: "instantiate_attributes_before_execute_method w self0 = (res2, w2)"
      using s1 Inr s2 by (simp add: instantiate_attributes_before_execute_method_def)
    show ?thesis
    proof (cases res2)
      case (Inl e2)
      have "e2 = AttributeError"
        using Projection_instantiate_receiver_error s2 Inl by blast
      moreover have "e = e2" using assms(1) init before Inl by simp
      ultimately show ?thesis by simp
    next
      case (Inr self2)
      obtain r where r: "receivesFromProjections_of w2 r = receivesFromProjections_of w1 r @ [new]"
        and ss: "\<forall>s. sendsToProjections_of w2 s = sendsToProjections_of w1 s"
        using Projection_instantiate_receiver_ok s2 Inr ref1 by blast
      have eq: "Mapping_init w new sender_arg receiver_arg params own
                = (Mapping_instantiate_execute_method w2 self2, w2)"
        using init before Inr by simp
      have "(Mapping_instantiate_execute_method w2 self2, w2) = (Inl e, w')"
        using assms(1) unfolding eq .
      then have both: "Mapping_instantiate_execute_method w2 self2 = Inl e \<and> w2 = w'"
        by (rule iffD1 [OF prod.inject])
      have fin: "Mapping_instantiate_execute_method w2 self2 = Inl e"
        using both by (rule conjunct1)
      have "w2 = w'"
        using both by (rule conjunct2)
      then have w': "w' = w2"
        by (rule sym)
      have later: "e \<noteq> ProjectionError IllegalProcessInput \<and> e \<noteq> ProjectionError SenderClassNotOutputState
            \<and> e \<noteq> ProjectionError SenderNotOutputState"
        using Mapping_instantiate_execute_method_error [OF fin] by auto
      have "sendsToProjections_of w' s = sendsToProjections_of w s @ [new]"
        using s ss w' by simp
      moreover have "receivesFromProjections_of w' r = receivesFromProjections_of w r @ [new]"
        using r rs w' by simp
      ultimately show ?thesis using later by blast
    qed
  qed
qed





lemmas wiring_defs =
  Mapping_init_def instantiate_attributes_before_execute_method_def Projection_validate_params_def
  Mapping_instantiate_sender_def Projection_instantiate_sender_def Projection_instantiate_receiver_def
  Mapping_instantiate_execute_method_def Projection_instantiate_execute_method_def
  Function_instantiate_execute_method_def try_conversion_def is_number_def len_or_1_def
  get_state_def put_state_def new_state_def new_mechanism_state_def example_world_def
  sendsToProjections_of_def receivesFromProjections_of_def
  Mapping_paramClassDefaults_def variableClassDefault_def
  LinearMatrix_init_def LinearMatrix_validate_variable_def LinearMatrix_validate_params_def
  validate_receiver_def assign_defaults_def LinearMatrix_paramClassDefaults_def
  implement_matrix_def param_truth_def LinearMatrix_execute_def














lemma example_init_process_input:
  "fst (Mapping_init example_world 30 (Object 15) (Object 12) [] None)
   = Inr \<lparr>self_ref = 30, proj_sender = Object 15, proj_receiver = Object 12,
          proj_variable = Arr1 [5, 6], proj_value = Some (Arr1 [5, 6]),
          kwProjectionSender = MechanismOutputState, kwProjectionSenderValue = Arr1 [1],
          kwExecuteMethodParams = [(kwMatrix, PString kwIdentityMatrix)],
          execute_method = Some
            \<lparr>variable = Arr1 [5, 6], functionOutputTypeConversion = False,
             functionOutputType_attr = NoneValue, receiver = Some [5, 6],
             paramsCurrent = [(kwFunctionOutputTypeConversion, PBool False),
                              (kwMatrix, PString kwIdentityMatrix), (kwReceiver, PList [5, 6])],
             matrix = Some (NdArray (np_identity (length [5, 6 :: real])))\<rparr>,
          self_execute = None\<rparr>"
  by (simp add: wiring_defs np_dot_identity [of "[5, 6]", simplified])

text \<open>
  C8. For every sender vector \<open>v\<close> held by an output state, and every receiver state
  whose vector has the same length, the construction of a Mapping projection with the
  class defaults succeeds; its transform is LinearMatrix with the identity matrix of size
  \<open>length v\<close>; \<open>update\<close> (execute on the sender's value) returns \<open>v\<close> unchanged, and
  so does execute on every vector of that length.
\<close>

theorem Mapping_identity_roundtrip:
  assumes "objects w s = Some (State ss)"
    and "state_class ss = MechanismOutputState"
    and "state_value ss = Arr1 v"
    and "objects w r = Some (State rs)"
    and "state_variable rs = Arr1 rv"
    and "state_value rs = Arr1 rv'"
    and "length rv = length v"
    and "length rv' = length v"
    and "r \<noteq> s"
  shows "\<exists>p w' lm. Mapping_init w new (Object s) (Object r) [] own = (Inr p, w')
           \<and> Mapping_update w' p = Inr (Arr1 v)
           \<and> execute_method p = Some lm
           \<and> matrix lm = Some (NdArray (np_identity (length v)))
           \<and> (\<forall>v'. length v' = length v \<longrightarrow> LinearMatrix_execute lm (Arr1 v') = Inr (Arr1 v'))"
proof -
  have dot: "\<And>v'. length v' = length v \<Longrightarrow> np_dot v' (np_identity (length v)) = Inr v'"
    using np_dot_identity by metis
  show ?thesis
    using assms dot
    by (simp add: Mapping_init_def instantiate_attributes_before_execute_method_def
        Projection_validate_params_def Mapping_instantiate_sender_def
        Projection_instantiate_sender_def Projection_instantiate_receiver_def
        Mapping_instantiate_execute_method_def Projection_instantiate_execute_method_def
        Function_instantiate_execute_method_def len_or_1_def get_state_def put_state_def
        Mapping_paramClassDefaults_def LinearMatrix_init_identity [unfolded kwIdentityMatrix_def]
        assign_defaults_def kwIdentityMatrix_def Mapping_update_def LinearMatrix_execute_def
        LinearMatrix_validate_variable_def Let_def)
qed

text \<open>C8 at the example store: the vector \<open>[1, 2]\<close> is conveyed unchanged.\<close>

theorem Mapping_identity_roundtrip_witness:
  "objects example_world 10
     = Some (State \<lparr>state_class = MechanismOutputState, state_value = Arr1 [1, 2],
                     state_variable = Arr1 [1, 2], ownerMechanism = Some 17,
                     sendsToProjections = [], receivesFromProjections = []\<rparr>)
   \<and> objects example_world 12
     = Some (State \<lparr>state_class = MechanismInputState, state_value = Arr1 [0, 0],
                     state_variable = Arr1 [0, 0], ownerMechanism = Some 17,
                     sendsToProjections = [], receivesFromProjections = []\<rparr>)
   \<and> length [0, 0 :: real] = length [1, 2 :: real] \<and> (12 :: nat) \<noteq> 10
   \<and> (\<exists>p w'. Mapping_init example_world 30 (Object 10) (Object 12) [] None = (Inr p, w')
              \<and> Mapping_update w' p = Inr (Arr1 [1, 2]))"
proof -
  let ?ss = "\<lparr>state_class = MechanismOutputState, state_value = Arr1 [1, 2],
               state_variable = Arr1 [1, 2], ownerMechanism = Some 17,
               sendsToProjections = [], receivesFromProjections = []\<rparr>"
  let ?rs = "\<lparr>state_class = MechanismInputState, state_value = Arr1 [0, 0],
               state_variable = Arr1 [0, 0], ownerMechanism = Some 17,
               sendsToProjections = [], receivesFromProjections = []\<rparr>"
  have a: "objects example_world 10 = Some (State ?ss)"
    by (simp add: example_world_def new_mechanism_state_def)
  have b: "objects example_world 12 = Some (State ?rs)"
    by (simp add: example_world_def new_mechanism_state_def)
  have "\<exists>p w' lm. Mapping_init example_world 30 (Object 10) (Object 12) [] None = (Inr p, w')
           \<and> Mapping_update w' p = Inr (Arr1 [1, 2])
           \<and> execute_method p = Some lm
           \<and> matrix lm = Some (NdArray (np_identity (length [1, 2 :: real])))
           \<and> (\<forall>v'. length v' = length [1, 2 :: real]
                  \<longrightarrow> LinearMatrix_execute lm (Arr1 v') = Inr (Arr1 v'))"
    by (rule Mapping_identity_roundtrip [OF a _ _ b, of "[1, 2]" "[0, 0]" "[0, 0]"]) simp_all
  then show ?thesis using a b by auto
qed

text \<open>
  The failure of the counterexample does not depend on the projection having no execute
  method of its own: with one whose output is incompatible with the receiver the
  construction fails as well (with AttributeError, raised while the message of the
  ProjectionError is built), and a matrix refused by LinearMatrix fails it for every
  such method; the two lists keep the projection each time.
\<close>

lemma example_init_own_execute:
  assumes "\<not> iscompatible out (Arr1 [0, 0, 0])"
  shows "fst (Mapping_init example_world 30 (Object 10) (Object 11) [] (Some out)) = Inl AttributeError
       \<and> sendsToProjections_of (snd (Mapping_init example_world 30 (Object 10) (Object 11) [] (Some out))) 10
           = [30]
       \<and> receivesFromProjections_of (snd (Mapping_init example_world 30 (Object 10) (Object 11) [] (Some out))) 11
           = [30]"
  using assms
  by (auto simp: wiring_defs np_dot_identity [of "[1, 2]", simplified])

lemma example_init_matrix_refused:
  "fst (Mapping_init example_world 30 (Object 10) (Object 12) [(kwMatrix, PListOfLists [[1, 2, 3]])] own)
     = Inl UtilityError
   \<and> sendsToProjections_of
        (snd (Mapping_init example_world 30 (Object 10) (Object 12) [(kwMatrix, PListOfLists [[1, 2, 3]])] own)) 10
     = [30]
   \<and> receivesFromProjections_of
        (snd (Mapping_init example_world 30 (Object 10) (Object 12) [(kwMatrix, PListOfLists [[1, 2, 3]])] own)) 12
     = [30]"
  by (simp add: wiring_defs rectangular_def row_length_def)

end
